theory Spec2Isabelle
  imports Main "HOL-Library.Word"
begin

unbundle bit_operations_syntax

section \<open>A shallow embedding of the logging package \<open>log/log.go\<close>\<close>

text \<open>
  The package keeps four process-wide variables (the level mask, the stderr flag, the
  log file's path and its handle) and offers a fluent builder: a severity constructor
  (\<open>Info\<close>, \<open>Warn\<close>, \<open>Error\<close>, \<open>Fatal\<close>, \<open>Debug\<close>), field setters that append
  pre-rendered fragments, and \<open>Msg\<close>, which renders one line and writes it to the sinks.

  The embedding passes the process-wide variables (\<open>globals\<close>) and the state of the
  operating system (\<open>world\<close>) explicitly. A Go \<open>string\<close> is a byte sequence and is
  modelled as \<open>string\<close>; Go's \<open>int\<close> and \<open>int64\<close> are 64-bit words read with
  \<open>sint\<close>; a \<open>*os.File\<close> is a \<open>File option\<close>, \<open>None\<close> being the nil pointer; an
  \<open>error\<close> interface value is the text of its \<open>Error()\<close> method, \<open>None\<close> being nil.
\<close>

subsection \<open>Constants and data\<close>

type_synonym go_int = "64 word"

definition LOG_TRACE :: go_int where "LOG_TRACE = 0xFF"
definition LOG_FATAL :: go_int where "LOG_FATAL = 0x00"
definition LOG_INFO :: go_int where "LOG_INFO = 0x04"
definition LOG_WARN :: go_int where "LOG_WARN = 0x02"
definition LOG_ERROR :: go_int where "LOG_ERROR = 0x01"

record Logger =
  parts :: "string list"
  ignore :: bool

text \<open>An open-file object of the operating system; \<open>*os.File\<close> is \<open>File option\<close>.\<close>

type_synonym File = nat

text \<open>A \<open>float32\<close> is kept as its IEEE 754 bit pattern.\<close>

type_synonym float32 = "32 word"

record globals =
  LOG_FH :: "File option"
  LOG_FILE :: string
  LOG_LEVEL :: go_int
  LOG_STDERR :: bool

text \<open>The values of the package variables when the program starts.\<close>

definition initial_globals :: globals where
  "initial_globals =
     \<lparr>LOG_FH = None, LOG_FILE = [], LOG_LEVEL = LOG_ERROR, LOG_STDERR = True\<rparr>"

subsection \<open>The operating system and the standard library\<close>

text \<open>
  What the package sees of its environment: the clock (already formatted as RFC3339, the
  text that \<open>time.Now().Format(time.RFC3339)\<close> returns), the chunks written to standard
  error and the lines printed on standard output, the directories and regular files that
  exist, the paths on which the system refuses to create or open anything (a missing
  parent, permissions), and the table of open file objects with the path each one is
  open on.
\<close>

record world =
  now :: string
  stderr :: "string list"
  stdout :: "string list"
  dirs :: "string set"
  files :: "string \<rightharpoonup> string"
  denied :: "string set"
  open_files :: "File \<rightharpoonup> string"
  next_file :: File

datatype errno = EINVAL | ENOENT | EEXIST | EACCES | ECLOSED

text \<open>How a Go function call ends.\<close>

datatype 'a outcome = Returns 'a | Panics | Exits

text \<open>\<open>os.Stat\<close>: \<open>True\<close> when the returned error is nil.\<close>

definition os_Stat :: "string \<Rightarrow> world \<Rightarrow> bool" where
  "os_Stat p w = (p \<in> dirs w \<or> files w p \<noteq> None)"

definition os_Mkdir :: "string \<Rightarrow> world \<Rightarrow> errno option \<times> world" where
  "os_Mkdir p w =
     (if os_Stat p w then (Some EEXIST, w)
      else if p \<in> denied w then (Some EACCES, w)
      else (None, w\<lparr>dirs := insert p (dirs w)\<rparr>))"

text \<open>\<open>os.Create\<close> truncates or creates the file; on failure the file pointer is nil.\<close>

definition os_Create :: "string \<Rightarrow> world \<Rightarrow> File option \<times> errno option \<times> world" where
  "os_Create p w =
     (if p \<in> denied w \<or> p \<in> dirs w then (None, Some EACCES, w)
      else (Some (next_file w), None,
            w\<lparr>files := (files w)(p \<mapsto> []),
              open_files := (open_files w)(next_file w \<mapsto> p),
              next_file := Suc (next_file w)\<rparr>))"

text \<open>\<open>os.OpenFile\<close> with \<open>O_RDWR|O_APPEND\<close>: the file must exist.\<close>

definition os_OpenFile :: "string \<Rightarrow> world \<Rightarrow> File option \<times> errno option \<times> world" where
  "os_OpenFile p w =
     (if files w p = None then (None, Some ENOENT, w)
      else if p \<in> denied w then (None, Some EACCES, w)
      else (Some (next_file w), None,
            w\<lparr>open_files := (open_files w)(next_file w \<mapsto> p),
              next_file := Suc (next_file w)\<rparr>))"

text \<open>
  The methods of \<open>*os.File\<close>. Go runs a method on a nil pointer receiver like any other
  call; the methods of \<open>os.File\<close> test the receiver first and return \<open>os.ErrInvalid\<close>
  when it is nil, and \<open>os.ErrClosed\<close> when the file has been closed.
\<close>

definition File_Write :: "File option \<Rightarrow> string \<Rightarrow> world \<Rightarrow> errno option \<times> world" where
  "File_Write f b w =
     (case f of
        None \<Rightarrow> (Some EINVAL, w)
      | Some h \<Rightarrow>
          (case open_files w h of
             None \<Rightarrow> (Some ECLOSED, w)
           | Some p \<Rightarrow>
               (None, w\<lparr>files := (files w)(p \<mapsto>
                          (case files w p of None \<Rightarrow> b | Some c \<Rightarrow> c @ b))\<rparr>)))"

definition File_Close :: "File option \<Rightarrow> world \<Rightarrow> errno option \<times> world" where
  "File_Close f w =
     (case f of
        None \<Rightarrow> (Some EINVAL, w)
      | Some h \<Rightarrow>
          (case open_files w h of
             None \<Rightarrow> (Some ECLOSED, w)
           | Some p \<Rightarrow> (None, w\<lparr>open_files := (open_files w)(h := None)\<rparr>)))"

text \<open>\<open>os.Stderr.Write\<close>.\<close>

definition Stderr_Write :: "string \<Rightarrow> world \<Rightarrow> world" where
  "Stderr_Write b w = w\<lparr>stderr := stderr w @ [b]\<rparr>"

definition errno_text :: "errno \<Rightarrow> string" where
  "errno_text e =
     (case e of
        EINVAL \<Rightarrow> ''invalid argument''
      | ENOENT \<Rightarrow> ''no such file or directory''
      | EEXIST \<Rightarrow> ''file exists''
      | EACCES \<Rightarrow> ''permission denied''
      | ECLOSED \<Rightarrow> ''file already closed'')"

text \<open>\<open>fmt.Println\<close> of a text and an error: operands separated by a blank, then a newline.\<close>

definition Println :: "string \<Rightarrow> errno \<Rightarrow> world \<Rightarrow> world" where
  "Println s e w = w\<lparr>stdout := stdout w @ [s @ '' '' @ errno_text e @ [CHR 0x0A]]\<rparr>"

text \<open>
  \<open>strings.ToLower\<close>. A string of ASCII bytes only is mapped bytewise, \<open>A\<close> to \<open>Z\<close>
  moving up by \<open>'a' - 'A'\<close>; any other string goes through the Unicode tables of the
  standard library, which the model takes as the parameter \<open>unicode_lower\<close>.
\<close>

definition lower :: "char \<Rightarrow> char" where
  "lower c =
     (if (65::nat) \<le> of_char c \<and> of_char c \<le> (90::nat)
      then char_of (of_char c + (32::nat)) else c)"

definition isASCII :: "string \<Rightarrow> bool" where
  "isASCII s = list_all (\<lambda>c. of_char c < (128::nat)) s"

definition hasUpper :: "string \<Rightarrow> bool" where
  "hasUpper s = list_ex (\<lambda>c. (65::nat) \<le> of_char c \<and> of_char c \<le> (90::nat)) s"

definition ToLower :: "(string \<Rightarrow> string) \<Rightarrow> string \<Rightarrow> string" where
  "ToLower unicode_lower s =
     (if isASCII s then (if \<not> hasUpper s then s else map lower s)
      else unicode_lower s)"

text \<open>The verbs of \<open>fmt.Sprintf\<close> that the package uses: \<open>%d\<close> and \<open>%t\<close>.\<close>

fun digits :: "nat \<Rightarrow> string" where
  "digits n =
     (if n < 10 then [''0123456789'' ! n]
      else digits (n div 10) @ [''0123456789'' ! (n mod 10)])"

declare digits.simps [simp del]

definition fmt_d :: "int \<Rightarrow> string" where
  "fmt_d i = (if i < 0 then ''-'' @ digits (nat (- i)) else digits (nat i))"

definition fmt_t :: "bool \<Rightarrow> string" where
  "fmt_t b = (if b then ''true'' else ''false'')"

subsection \<open>The builder\<close>

definition NewLogger :: "go_int \<Rightarrow> globals \<Rightarrow> Logger" where
  "NewLogger level g =
     (let x = \<lparr>parts = [], ignore = False\<rparr>
      in if LOG_LEVEL g AND level \<noteq> level then x\<lparr>ignore := True\<rparr> else x)"

definition Info :: "globals \<Rightarrow> Logger" where
  \<open>Info g =
     (let x = NewLogger LOG_INFO g
      in if ignore x then x else x\<lparr>parts := parts x @ [''"level":"info"'']\<rparr>)\<close>

definition Warn :: "globals \<Rightarrow> Logger" where
  \<open>Warn g =
     (let x = NewLogger LOG_WARN g
      in if ignore x then x else x\<lparr>parts := parts x @ [''"level":"warn"'']\<rparr>)\<close>

definition Error :: "globals \<Rightarrow> Logger" where
  \<open>Error g =
     (let x = NewLogger LOG_ERROR g
      in if ignore x then x else x\<lparr>parts := parts x @ [''"level":"error"'']\<rparr>)\<close>

definition Fatal :: Logger where
  \<open>Fatal =
     (let x = \<lparr>parts = [], ignore = False\<rparr>
      in x\<lparr>parts := parts x @ [''"level":"fatal"'']\<rparr>)\<close>

definition Debug :: "globals \<Rightarrow> Logger" where
  \<open>Debug g =
     (let x = NewLogger LOG_TRACE g
      in if ignore x then x else x\<lparr>parts := parts x @ [''"level":"debug"'']\<rparr>)\<close>

definition Err :: "string option \<Rightarrow> Logger \<Rightarrow> Logger" where
  \<open>Err err x =
     (case err of
        None \<Rightarrow> x
      | Some text \<Rightarrow>
          if ignore x then x
          else x\<lparr>parts := parts x @ [''"error":"'' @ text @ ''"'']\<rparr>)\<close>

definition Str :: "string \<Rightarrow> string \<Rightarrow> Logger \<Rightarrow> Logger" where
  \<open>Str key val x =
     (if ignore x then x
      else x\<lparr>parts := parts x @ [''"'' @ key @ ''":"'' @ val @ ''"'']\<rparr>)\<close>

definition Bool :: "string \<Rightarrow> bool \<Rightarrow> Logger \<Rightarrow> Logger" where
  \<open>Bool key val x =
     (if ignore x then x
      else x\<lparr>parts := parts x @ [''"'' @ key @ ''":"'' @ fmt_t val @ ''"'']\<rparr>)\<close>

text \<open>\<open>Int\<close>, primed because Isabelle reads \<open>Int\<close> as set intersection.\<close>

definition Int' :: "string \<Rightarrow> go_int \<Rightarrow> Logger \<Rightarrow> Logger" where
  \<open>Int' key val x =
     (if ignore x then x
      else x\<lparr>parts := parts x @ [''"'' @ key @ ''":"'' @ fmt_d (sint val) @ ''"'']\<rparr>)\<close>

definition Int64 :: "string \<Rightarrow> go_int \<Rightarrow> Logger \<Rightarrow> Logger" where
  \<open>Int64 key val x =
     (if ignore x then x
      else x\<lparr>parts := parts x @ [''"'' @ key @ ''":"'' @ fmt_d (sint val) @ ''"'']\<rparr>)\<close>

text \<open>
  The verb \<open>%f\<close> of a \<open>float32\<close> is the parameter \<open>fmt_f\<close>: the decimal expansion of a
  floating-point number is left to the standard library.
\<close>

definition Float :: "(float32 \<Rightarrow> string) \<Rightarrow> string \<Rightarrow> float32 \<Rightarrow> Logger \<Rightarrow> Logger" where
  \<open>Float fmt_f key val x =
     (if ignore x then x
      else x\<lparr>parts := parts x @ [''"'' @ key @ ''":"'' @ fmt_f val @ ''"'']\<rparr>)\<close>

text \<open>The loop of \<open>Msg\<close> over the fragments, the buffer being the accumulator.\<close>

fun write_items :: "string list \<Rightarrow> string \<Rightarrow> string" where
  "write_items [] buffer = buffer"
| "write_items (item # rest) buffer = write_items rest ((buffer @ item) @ '','')"

definition Msg :: "string \<Rightarrow> Logger \<Rightarrow> globals \<Rightarrow> world \<Rightarrow> world outcome" where
  \<open>Msg msg x g w =
     (if ignore x then Returns w
      else
        let buffer = [];
            buffer = buffer @ ''{'';
            buffer = buffer @ (''"time":"'' @ now w @ ''",'');
            buffer = write_items (parts x) buffer;
            buffer = buffer @ (''"message":"'' @ msg @ ''"'');
            buffer = buffer @ ''}'';
            buffer = buffer @ [CHR 0x0A];
            out = buffer;
            w = (if LOG_STDERR g then Stderr_Write out w else w);
            w = (if LOG_FH g \<noteq> None then snd (File_Write (LOG_FH g) out w) else w)
        in Returns w)\<close>

definition Shutdown :: "globals \<Rightarrow> world \<Rightarrow> world outcome" where
  "Shutdown g w = Returns (snd (File_Close (LOG_FH g) w))"

definition LogFile :: "globals \<Rightarrow> string" where
  "LogFile g = LOG_FILE g"

subsection \<open>Initialization\<close>

text \<open>The \<open>switch\<close> of \<open>InitLogger\<close>: it has no default case.\<close>

definition set_level :: "(string \<Rightarrow> string) \<Rightarrow> string \<Rightarrow> globals \<Rightarrow> globals" where
  "set_level unicode_lower level g =
     (let l = ToLower unicode_lower level
      in if l = ''trace'' then g\<lparr>LOG_LEVEL := LOG_TRACE\<rparr>
         else if l = ''debug'' then g\<lparr>LOG_LEVEL := LOG_TRACE\<rparr>
         else if l = ''error'' then g\<lparr>LOG_LEVEL := LOG_ERROR\<rparr>
         else if l = ''warn'' then g\<lparr>LOG_LEVEL := LOG_ERROR OR LOG_WARN\<rparr>
         else if l = ''info'' then g\<lparr>LOG_LEVEL := (LOG_ERROR OR LOG_WARN) OR LOG_INFO\<rparr>
         else g)"

text \<open>The block \<open>if file != ""\<close> of \<open>InitLogger\<close>.\<close>

definition open_log_file :: "string \<Rightarrow> string \<Rightarrow> globals \<Rightarrow> world \<Rightarrow> globals \<times> world" where
  "open_log_file path file g w =
     (if file \<noteq> [] then
        let w = (if \<not> os_Stat path w then snd (os_Mkdir path w) else w)
        in if \<not> os_Stat (LOG_FILE g) w then
             (case os_Create (LOG_FILE g) w of
                (fh, err, w) \<Rightarrow>
                  (g\<lparr>LOG_FH := fh\<rparr>,
                   case err of
                     None \<Rightarrow> w
                   | Some e \<Rightarrow> Println ''[ERROR] create log file failed'' e w))
           else
             (case os_OpenFile (LOG_FILE g) w of
                (fh, err, w) \<Rightarrow>
                  (g\<lparr>LOG_FH := fh\<rparr>,
                   case err of
                     None \<Rightarrow> w
                   | Some e \<Rightarrow> Println ''[ERROR] open log file failed'' e w))
      else (g, w))"

definition InitLogger ::
  "(string \<Rightarrow> string) \<Rightarrow> string \<Rightarrow> string \<Rightarrow> string \<Rightarrow> bool \<Rightarrow> globals \<Rightarrow> world
     \<Rightarrow> (globals \<times> world) outcome" where
  "InitLogger unicode_lower path file level standardError g w =
     (let g = g\<lparr>LOG_FILE := path @ ''/'' @ file\<rparr>;
          g = g\<lparr>LOG_STDERR := standardError\<rparr>;
          g = set_level unicode_lower level g;
          (g, w) = open_log_file path file g w
      in case Msg ''logging started''
                (Str ''file'' (LOG_FILE g)
                  (Str ''level'' level
                    (Str ''component'' ''osintami'' (Info g)))) g w of
           Returns w \<Rightarrow> Returns (g, w)
         | Panics \<Rightarrow> Panics
         | Exits \<Rightarrow> Exits)"

section \<open>Callers, and what the specification says of a line\<close>

subsection \<open>Calls in sequence\<close>

text \<open>
  A caller obtains a builder from one of the five constructors, chains setter calls on it
  and ends with \<open>Msg\<close>. The four constructors that consult the mask are named by a
  \<open>severity\<close>; \<open>Fatal\<close> takes no mask and stands apart. A setter call with its
  arguments is a \<open>field_call\<close>, and \<open>chain\<close> makes the calls from left to right.
\<close>

datatype severity = SevInfo | SevWarn | SevError | SevDebug

fun construct :: "severity \<Rightarrow> globals \<Rightarrow> Logger" where
  "construct SevInfo g = Info g"
| "construct SevWarn g = Warn g"
| "construct SevError g = Error g"
| "construct SevDebug g = Debug g"

fun severity_bit :: "severity \<Rightarrow> go_int" where
  "severity_bit SevInfo = LOG_INFO"
| "severity_bit SevWarn = LOG_WARN"
| "severity_bit SevError = LOG_ERROR"
| "severity_bit SevDebug = LOG_TRACE"

fun level_name :: "severity \<Rightarrow> string" where
  "level_name SevInfo = ''info''"
| "level_name SevWarn = ''warn''"
| "level_name SevError = ''error''"
| "level_name SevDebug = ''debug''"

datatype field_call =
    CallStr string string
  | CallInt string go_int
  | CallInt64 string go_int
  | CallFloat string float32
  | CallBool string bool
  | CallErr "string option"

fun call_setter :: "(float32 \<Rightarrow> string) \<Rightarrow> field_call \<Rightarrow> Logger \<Rightarrow> Logger" where
  "call_setter fmt_f (CallStr k v) x = Str k v x"
| "call_setter fmt_f (CallInt k v) x = Int' k v x"
| "call_setter fmt_f (CallInt64 k v) x = Int64 k v x"
| "call_setter fmt_f (CallFloat k v) x = Float fmt_f k v x"
| "call_setter fmt_f (CallBool k v) x = Bool k v x"
| "call_setter fmt_f (CallErr e) x = Err e x"

definition chain :: "(float32 \<Rightarrow> string) \<Rightarrow> field_call list \<Rightarrow> Logger \<Rightarrow> Logger" where
  "chain fmt_f calls x = foldl (\<lambda>x c. call_setter fmt_f c x) x calls"

text \<open>Initialization calls in sequence, each with its four arguments.\<close>

fun InitLogger_seq ::
  "(string \<Rightarrow> string) \<Rightarrow> (string \<times> string \<times> string \<times> bool) list \<Rightarrow> globals \<Rightarrow> world
     \<Rightarrow> (globals \<times> world) outcome" where
  "InitLogger_seq unicode_lower [] g w = Returns (g, w)"
| "InitLogger_seq unicode_lower ((path, file, level, standardError) # rest) g w =
     (case InitLogger unicode_lower path file level standardError g w of
        Returns (g, w) \<Rightarrow> InitLogger_seq unicode_lower rest g w
      | Panics \<Rightarrow> Panics
      | Exits \<Rightarrow> Exits)"

text \<open>The mask that a run of initialization calls leaves, when the run returns.\<close>

definition mask_after :: "(globals \<times> world) outcome \<Rightarrow> go_int option" where
  "mask_after r =
     (case r of Returns (g, w) \<Rightarrow> Some (LOG_LEVEL g) | Panics \<Rightarrow> None | Exits \<Rightarrow> None)"

subsection \<open>The wording of the specification\<close>

text \<open>
  The specification's fragment \<open>"key":"value"\<close>: the key between double quotes, a colon,
  the value between double quotes.
\<close>

definition fragment :: "string \<Rightarrow> string \<Rightarrow> string" where
  "fragment key val = [CHR 0x22] @ key @ [CHR 0x22, CHR 0x3A, CHR 0x22] @ val @ [CHR 0x22]"

text \<open>What the specification says each setter call contributes to the line.\<close>

fun rendered :: "(float32 \<Rightarrow> string) \<Rightarrow> field_call \<Rightarrow> string list" where
  "rendered fmt_f (CallStr k v) = [fragment k v]"
| "rendered fmt_f (CallInt k v) = [fragment k (fmt_d (sint v))]"
| "rendered fmt_f (CallInt64 k v) = [fragment k (fmt_d (sint v))]"
| "rendered fmt_f (CallFloat k v) = [fragment k (fmt_f v)]"
| "rendered fmt_f (CallBool k v) = [fragment k (fmt_t v)]"
| "rendered fmt_f (CallErr None) = []"
| "rendered fmt_f (CallErr (Some text)) = [fragment ''error'' text]"

text \<open>
  The specification's line: an opening brace, the time field, every fragment in order
  with a comma after it, the message field, a closing brace, a newline.
\<close>

definition json_line :: "string \<Rightarrow> string list \<Rightarrow> string \<Rightarrow> string" where
  "json_line t ps msg =
     ''{'' @ fragment ''time'' t @ '','' @ concat (map (\<lambda>p. p @ '','') ps)
       @ fragment ''message'' msg @ ''}'' @ [CHR 0x0A]"

text \<open>
  The specification's sinks: the line is one more chunk on standard error when the flag
  is set, and is appended to the file that the handle is open on when there is a handle
  and it is open.
\<close>

definition sinks_after :: "globals \<Rightarrow> string \<Rightarrow> world \<Rightarrow> world" where
  "sinks_after g line w =
     w\<lparr>stderr := (if LOG_STDERR g then stderr w @ [line] else stderr w),
       files :=
         (case LOG_FH g of
            None \<Rightarrow> files w
          | Some h \<Rightarrow>
              (case open_files w h of
                 None \<Rightarrow> files w
               | Some p \<Rightarrow>
                   (files w)(p \<mapsto> (case files w p of None \<Rightarrow> line | Some c \<Rightarrow> c @ line))))\<rparr>"

text \<open>A sink is enabled: the flag is set, or there is a handle and it is open.\<close>

definition sink_enabled :: "globals \<Rightarrow> world \<Rightarrow> bool" where
  "sink_enabled g w =
     (LOG_STDERR g \<or> (case LOG_FH g of None \<Rightarrow> False | Some h \<Rightarrow> open_files w h \<noteq> None))"

text \<open>Visible output: the call returns and standard error or some file has changed.\<close>

definition visible_output :: "world \<Rightarrow> world outcome \<Rightarrow> bool" where
  "visible_output w r =
     (case r of
        Returns w' \<Rightarrow> stderr w' \<noteq> stderr w \<or> files w' \<noteq> files w
      | Panics \<Rightarrow> False
      | Exits \<Rightarrow> False)"

text \<open>The number of newline bytes in a byte sequence: a chunk is one line when it is 1.\<close>

definition newlines :: "string \<Rightarrow> nat" where
  "newlines s = count_list s (CHR 0x0A)"

text \<open>A level name that the \<open>switch\<close> of \<open>InitLogger\<close> has a case for.\<close>

definition recognized :: "(string \<Rightarrow> string) \<Rightarrow> string \<Rightarrow> bool" where
  "recognized unicode_lower level =
     (ToLower unicode_lower level = ''trace'' \<or> ToLower unicode_lower level = ''debug''
      \<or> ToLower unicode_lower level = ''error'' \<or> ToLower unicode_lower level = ''warn''
      \<or> ToLower unicode_lower level = ''info'')"

text \<open>The number that a string of decimal digits with an optional sign denotes.\<close>

definition decimal_nat :: "string \<Rightarrow> nat" where
  "decimal_nat s = foldl (\<lambda>a c. 10 * a + (of_char c - 48)) 0 s"

definition decimal_int :: "string \<Rightarrow> int" where
  "decimal_int s =
     (case s of
        [] \<Rightarrow> 0
      | c # cs \<Rightarrow> if c = CHR ''-'' then - int (decimal_nat cs) else int (decimal_nat s))"

subsection \<open>A concrete machine\<close>

text \<open>
  A machine on which \<open>/tmp\<close> exists, no file exists, nothing is open and nothing has been
  written; and the package variables after \<open>InitLogger("/tmp", "", "debug", false)\<close>.
\<close>

definition world0 :: world where
  "world0 =
     \<lparr>now = ''2023-01-02T03:04:05Z'', stderr = [], stdout = [], dirs = {''/tmp''},
      files = Map.empty, denied = {}, open_files = Map.empty, next_file = 3\<rparr>"

definition silent_globals :: globals where
  "silent_globals =
     \<lparr>LOG_FH = None, LOG_FILE = ''/tmp/'', LOG_LEVEL = LOG_TRACE, LOG_STDERR = False\<rparr>"

text \<open>
  The package variables and the machine after
  \<open>InitLogger("/tmp/x", "app.log", "warn", true)\<close> on that machine: the directory and
  the file have been created, and the file is open as object 3.
\<close>

definition warn_globals :: globals where
  "warn_globals =
     \<lparr>LOG_FH = Some 3, LOG_FILE = ''/tmp/x/app.log'', LOG_LEVEL = 0x03, LOG_STDERR = True\<rparr>"

definition warn_world :: world where
  "warn_world =
     \<lparr>now = ''2023-01-02T03:04:05Z'', stderr = [], stdout = [],
      dirs = {''/tmp/x'', ''/tmp''}, files = [''/tmp/x/app.log'' \<mapsto> []], denied = {},
      open_files = [3 \<mapsto> ''/tmp/x/app.log''], next_file = 4\<rparr>"

section \<open>Properties of the embedding\<close>

subsection \<open>Rendering and writing\<close>

lemma write_items_concat:
  "write_items ps buffer = buffer @ concat (map (\<lambda>p. p @ '','') ps)"
  by (induction ps arbitrary: buffer) simp_all

lemma Msg_ignored: "ignore x \<Longrightarrow> Msg msg x g w = Returns w"
  by (simp add: Msg_def)

lemma Msg_active:
  "\<not> ignore x \<Longrightarrow>
     Msg msg x g w = Returns (sinks_after g (json_line (now w) (parts x) msg) w)"
  by (cases "LOG_FH g")
     (auto simp: Msg_def Let_def sinks_after_def json_line_def fragment_def write_items_concat
        Stderr_Write_def File_Write_def split: option.splits)

lemma Msg_returns:
  "Msg msg x g w =
     Returns (if ignore x then w else sinks_after g (json_line (now w) (parts x) msg) w)"
  by (simp add: Msg_ignored Msg_active)

lemma json_line_nonempty: "json_line t ps msg \<noteq> []"
  by (simp add: json_line_def)

lemma visible_sinks_after:
  "line \<noteq> [] \<Longrightarrow> visible_output w (Returns (sinks_after g line w)) = sink_enabled g w"
  by (auto simp: visible_output_def sinks_after_def sink_enabled_def fun_upd_idem_iff
      split: option.splits)

lemma visible_Msg:
  "visible_output w (Msg msg x g w) = (\<not> ignore x \<and> sink_enabled g w)"
proof (cases "ignore x")
  case True
  then show ?thesis by (simp add: Msg_ignored visible_output_def)
next
  case False
  then show ?thesis
    by (simp add: Msg_active visible_sinks_after json_line_nonempty)
qed

lemma newlines_append: "newlines (a @ b) = newlines a + newlines b"
  by (simp add: newlines_def)

lemma newlines_items:
  "newlines (concat (map (\<lambda>p. p @ '','') ps)) = sum_list (map newlines ps)"
  by (induction ps) (simp_all add: newlines_def)

lemma newlines_json_line:
  "newlines (json_line t ps msg) = 1 + newlines t + sum_list (map newlines ps) + newlines msg"
proof -
  have "newlines (json_line t ps msg) =
      newlines (fragment ''time'' t) + newlines (concat (map (\<lambda>p. p @ '','') ps))
        + newlines (fragment ''message'' msg) + 1"
    by (simp add: json_line_def newlines_def)
  moreover have "newlines (fragment k v) = newlines k + newlines v" for k v
    by (simp add: fragment_def newlines_def)
  moreover have "newlines ''time'' = 0" and "newlines ''message'' = 0"
    by (simp_all add: newlines_def)
  ultimately show ?thesis
    by (simp add: newlines_items)
qed

lemma last_json_line: "last (json_line t ps msg) = CHR 0x0A"
  by (simp add: json_line_def)

subsection \<open>Setters and chains\<close>

lemma setter_defs:
  "Str k v x = (if ignore x then x else x\<lparr>parts := parts x @ [fragment k v]\<rparr>)"
  "Int' k i x = (if ignore x then x else x\<lparr>parts := parts x @ [fragment k (fmt_d (sint i))]\<rparr>)"
  "Int64 k i x = (if ignore x then x else x\<lparr>parts := parts x @ [fragment k (fmt_d (sint i))]\<rparr>)"
  "Float ff k f x = (if ignore x then x else x\<lparr>parts := parts x @ [fragment k (ff f)]\<rparr>)"
  "Bool k b x = (if ignore x then x else x\<lparr>parts := parts x @ [fragment k (fmt_t b)]\<rparr>)"
  "Err e x =
     (case e of
        None \<Rightarrow> x
      | Some t \<Rightarrow> if ignore x then x else x\<lparr>parts := parts x @ [fragment ''error'' t]\<rparr>)"
  by (simp_all add: Str_def Int'_def Int64_def Float_def Bool_def Err_def fragment_def
      split: option.splits)

lemma call_setter_ignored: "ignore x \<Longrightarrow> call_setter fmt_f c x = x"
  by (cases c) (simp_all add: setter_defs split: option.splits)

lemma call_setter_active:
  assumes "\<not> ignore x"
  shows "call_setter fmt_f c x = x\<lparr>parts := parts x @ rendered fmt_f c\<rparr>"
proof (cases c)
  case (CallErr e)
  then show ?thesis using assms by (cases e) (simp_all add: setter_defs)
qed (use assms in \<open>simp_all add: setter_defs\<close>)

lemma call_setter_ignore: "ignore (call_setter fmt_f c x) = ignore x"
  by (cases "ignore x") (simp_all add: call_setter_ignored call_setter_active)

lemma chain_Cons: "chain fmt_f (c # cs) x = chain fmt_f cs (call_setter fmt_f c x)"
  by (simp add: chain_def)

lemma chain_ignored: "ignore x \<Longrightarrow> chain fmt_f cs x = x"
  by (induction cs) (simp_all add: chain_def call_setter_ignored)

lemma chain_active:
  "\<not> ignore x \<Longrightarrow>
     chain fmt_f cs x = x\<lparr>parts := parts x @ concat (map (rendered fmt_f) cs)\<rparr>"
proof (induction cs arbitrary: x)
  case Nil
  then show ?case by (simp add: chain_def)
next
  case (Cons c cs)
  have "\<not> ignore (call_setter fmt_f c x)"
    using Cons.prems by (simp add: call_setter_ignore)
  then have "chain fmt_f cs (call_setter fmt_f c x) =
      (call_setter fmt_f c x)\<lparr>parts := parts (call_setter fmt_f c x)
         @ concat (map (rendered fmt_f) cs)\<rparr>"
    by (rule Cons.IH)
  then show ?case
    using Cons.prems by (simp add: chain_Cons call_setter_active)
qed

lemma chain_ignore: "ignore (chain fmt_f cs x) = ignore x"
  by (cases "ignore x") (simp_all add: chain_ignored chain_active)

subsection \<open>The constructors\<close>

lemma construct_ignore:
  "ignore (construct s g) = (LOG_LEVEL g AND severity_bit s \<noteq> severity_bit s)"
  by (cases s) (simp_all add: Info_def Warn_def Error_def Debug_def NewLogger_def Let_def)

lemma construct_active:
  "LOG_LEVEL g AND severity_bit s = severity_bit s \<Longrightarrow>
     construct s g = \<lparr>parts = [fragment ''level'' (level_name s)], ignore = False\<rparr>"
  by (cases s)
     (simp_all add: Info_def Warn_def Error_def Debug_def NewLogger_def Let_def fragment_def)

lemma construct_ignored:
  "LOG_LEVEL g AND severity_bit s \<noteq> severity_bit s \<Longrightarrow>
     construct s g = \<lparr>parts = [], ignore = True\<rparr>"
  by (cases s) (simp_all add: Info_def Warn_def Error_def Debug_def NewLogger_def Let_def)

lemma NewLogger_active:
  "LOG_LEVEL g AND level = level \<Longrightarrow> NewLogger level g = \<lparr>parts = [], ignore = False\<rparr>"
  by (simp add: NewLogger_def Let_def)

lemma Fatal_eq: "Fatal = \<lparr>parts = [fragment ''level'' ''fatal''], ignore = False\<rparr>"
  by (simp add: Fatal_def Let_def fragment_def)

lemma Fatal_bit: "m AND LOG_FATAL = LOG_FATAL"
  by (simp add: LOG_FATAL_def)

subsection \<open>Decimal numerals\<close>

lemma digit_char: "d < 10 \<Longrightarrow> of_char (''0123456789'' ! d) = (48::nat) + d"
proof -
  assume "d < 10"
  then have "d \<in> {0, 1, 2, 3, 4, 5, 6, 7, 8, 9}" by auto
  then show ?thesis by auto
qed

lemma digit_no_quote: "d < 10 \<Longrightarrow> ''0123456789'' ! d \<noteq> CHR 0x22"
proof
  assume "d < 10" and "''0123456789'' ! d = CHR 0x22"
  then have "of_char (CHR 0x22) = (48::nat) + d" using digit_char [of d] by simp
  then show False by simp
qed

lemma digit_no_minus: "d < 10 \<Longrightarrow> ''0123456789'' ! d \<noteq> CHR ''-''"
proof
  assume "d < 10" and "''0123456789'' ! d = CHR ''-''"
  then have "of_char (CHR ''-'') = (48::nat) + d" using digit_char [of d] by simp
  then show False by simp
qed

lemma digits_no_quote: "CHR 0x22 \<notin> set (digits n)"
proof (induction n rule: digits.induct)
  case (1 n)
  show ?case
  proof (cases "n < 10")
    case True
    then show ?thesis by (subst digits.simps) (simp add: digit_no_quote [symmetric])
  next
    case False
    moreover have "n mod 10 < 10" by simp
    ultimately show ?thesis
      using 1 digit_no_quote [of "n mod 10"] by (subst digits.simps) auto
  qed
qed

lemma digits_nonempty: "digits n \<noteq> []"
  by (subst digits.simps) simp

lemma hd_digits_no_minus: "hd (digits n) \<noteq> CHR ''-''"
proof (induction n rule: digits.induct)
  case (1 n)
  show ?case
  proof (cases "n < 10")
    case True
    then show ?thesis by (subst digits.simps) (simp add: digit_no_minus)
  next
    case False
    then show ?thesis
      using 1 digits_nonempty [of "n div 10"] by (subst digits.simps) simp
  qed
qed

lemma decimal_nat_snoc: "decimal_nat (s @ [c]) = 10 * decimal_nat s + (of_char c - 48)"
  by (simp add: decimal_nat_def)

lemma decimal_nat_digits: "decimal_nat (digits n) = n"
proof (induction n rule: digits.induct)
  case (1 n)
  show ?case
  proof (cases "n < 10")
    case True
    then show ?thesis
      by (subst digits.simps) (simp add: decimal_nat_def digit_char)
  next
    case False
    moreover have "n mod 10 < 10" by simp
    ultimately show ?thesis
      using 1 digit_char [of "n mod 10"]
      by (subst digits.simps) (simp add: decimal_nat_snoc)
  qed
qed

lemma decimal_int_fmt_d: "decimal_int (fmt_d i) = i"
proof (cases "i < 0")
  case True
  then show ?thesis by (simp add: fmt_d_def decimal_int_def decimal_nat_digits)
next
  case False
  obtain c cs where d: "digits (nat i) = c # cs"
    using digits_nonempty [of "nat i"] by (cases "digits (nat i)") auto
  have "c \<noteq> CHR ''-''" using hd_digits_no_minus [of "nat i"] d by simp
  moreover have "decimal_nat (c # cs) = nat i" using decimal_nat_digits [of "nat i"] d by simp
  ultimately show ?thesis using False d by (simp add: fmt_d_def decimal_int_def)
qed

lemma fmt_d_no_quote: "CHR 0x22 \<notin> set (fmt_d i)"
  by (simp add: fmt_d_def digits_no_quote)

lemma fmt_t_no_quote: "CHR 0x22 \<notin> set (fmt_t b)"
  by (simp add: fmt_t_def)

subsection \<open>Initialization\<close>

lemma ToLower_ascii: "isASCII s \<Longrightarrow> ToLower unicode_lower s = map lower s"
proof -
  have "\<not> hasUpper s \<Longrightarrow> map lower s = s"
    by (induction s) (auto simp: hasUpper_def lower_def)
  then show "isASCII s \<Longrightarrow> ToLower unicode_lower s = map lower s"
    by (simp add: ToLower_def)
qed

lemma set_level_mask:
  "LOG_LEVEL (set_level ul level g) =
     (if ToLower ul level = ''trace'' \<or> ToLower ul level = ''debug'' then 0xFF
      else if ToLower ul level = ''error'' then 0x01
      else if ToLower ul level = ''warn'' then 0x03
      else if ToLower ul level = ''info'' then 0x07
      else LOG_LEVEL g)"
  by (simp add: set_level_def Let_def LOG_TRACE_def LOG_ERROR_def LOG_WARN_def LOG_INFO_def)

lemma set_level_frame:
  "LOG_FILE (set_level ul level g) = LOG_FILE g"
  "LOG_STDERR (set_level ul level g) = LOG_STDERR g"
  "LOG_FH (set_level ul level g) = LOG_FH g"
  by (simp_all add: set_level_def Let_def)

lemma open_log_file_frame:
  "LOG_LEVEL (fst (open_log_file path file g w)) = LOG_LEVEL g"
  "LOG_FILE (fst (open_log_file path file g w)) = LOG_FILE g"
  "LOG_STDERR (fst (open_log_file path file g w)) = LOG_STDERR g"
  by (simp_all add: open_log_file_def Let_def split: prod.splits)

lemma open_log_file_no_file: "open_log_file path [] g w = (g, w)"
  by (simp add: open_log_file_def)

lemma Info_eq:
  "Info g =
     (if LOG_LEVEL g AND LOG_INFO = LOG_INFO
      then \<lparr>parts = [fragment ''level'' ''info''], ignore = False\<rparr>
      else \<lparr>parts = [], ignore = True\<rparr>)"
  by (simp add: Info_def NewLogger_def Let_def fragment_def)

lemma startup_builder:
  "Str ''file'' f (Str ''level'' level (Str ''component'' ''osintami'' (Info g))) =
     (if LOG_LEVEL g AND LOG_INFO = LOG_INFO
      then \<lparr>parts = [fragment ''level'' ''info'', fragment ''component'' ''osintami'',
                     fragment ''level'' level, fragment ''file'' f],
            ignore = False\<rparr>
      else \<lparr>parts = [], ignore = True\<rparr>)"
  by (simp add: Info_eq setter_defs)

lemma InitLogger_eq:
  "InitLogger ul path file level se g w =
     (let g0 = set_level ul level (g\<lparr>LOG_FILE := path @ ''/'' @ file, LOG_STDERR := se\<rparr>);
          g1 = fst (open_log_file path file g0 w);
          w1 = snd (open_log_file path file g0 w)
      in Returns
           (g1,
            if LOG_LEVEL g1 AND LOG_INFO = LOG_INFO
            then sinks_after g1
                   (json_line (now w1)
                      [fragment ''level'' ''info'', fragment ''component'' ''osintami'',
                       fragment ''level'' level, fragment ''file'' (path @ ''/'' @ file)]
                      ''logging started'') w1
            else w1))"
  by (simp add: InitLogger_def Let_def case_prod_beta Msg_returns startup_builder
      open_log_file_frame set_level_frame)

lemma InitLogger_mask:
  "mask_after (InitLogger ul path file level se g w) =
     Some (if ToLower ul level = ''trace'' \<or> ToLower ul level = ''debug'' then 0xFF
           else if ToLower ul level = ''error'' then 0x01
           else if ToLower ul level = ''warn'' then 0x03
           else if ToLower ul level = ''info'' then 0x07
           else LOG_LEVEL g)"
  by (simp add: InitLogger_eq Let_def mask_after_def open_log_file_frame set_level_mask)

lemma InitLogger_seq_returns:
  "\<exists>g' w'. InitLogger_seq ul calls g w = Returns (g', w')"
proof (induction calls arbitrary: g w)
  case Nil
  then show ?case by simp
next
  case (Cons a calls)
  obtain p f l s where a: "a = (p, f, l, s)" by (cases a) auto
  obtain g1 w1 where "InitLogger ul p f l s g w = Returns (g1, w1)"
    by (simp add: InitLogger_eq Let_def)
  then show ?case using Cons.IH [of g1 w1] a by simp
qed

lemma InitLogger_seq_snoc:
  "InitLogger_seq ul (calls @ [(path, file, level, se)]) g w =
     (case InitLogger_seq ul calls g w of
        Returns (g, w) \<Rightarrow> InitLogger ul path file level se g w
      | Panics \<Rightarrow> Panics
      | Exits \<Rightarrow> Exits)"
proof (induction calls arbitrary: g w)
  case Nil
  then show ?case by (simp add: InitLogger_eq Let_def)
next
  case (Cons a calls)
  obtain p f l s where a: "a = (p, f, l, s)" by (cases a) auto
  obtain g1 w1 where "InitLogger ul p f l s g w = Returns (g1, w1)"
    by (simp add: InitLogger_eq Let_def)
  then show ?case using Cons.IH [of g1 w1] a by simp
qed

lemma unrecognized_keeps_mask:
  "\<not> recognized ul level \<Longrightarrow>
     mask_after (InitLogger ul path file level se g w) = Some (LOG_LEVEL g)"
  by (simp add: InitLogger_mask recognized_def)

lemma ToLower_examples:
  "ToLower id ''debug'' = ''debug''"
  "ToLower id ''bogus'' = ''bogus''"
  "ToLower id ''WaRn'' = ''warn''"
  "ToLower id ''error'' = ''error''"
  "ToLower id ''INFO'' = ''info''"
  "ToLower id ''warn'' = ''warn''"
  by code_simp+

subsection \<open>Shutdown\<close>

lemma Shutdown_eq:
  "Shutdown g w =
     Returns
       (case LOG_FH g of
          None \<Rightarrow> w
        | Some h \<Rightarrow>
            (case open_files w h of
               None \<Rightarrow> w
             | Some p \<Rightarrow> w\<lparr>open_files := (open_files w)(h := None)\<rparr>))"
  by (simp add: Shutdown_def File_Close_def split: option.splits)

subsection \<open>Concrete runs\<close>

lemma isASCII_WaRn: "isASCII ''WaRn''"
  by code_simp

lemma not_recognized_bogus: "\<not> recognized id ''bogus''"
  by (simp add: recognized_def ToLower_examples)

lemma InitLogger_seq_snoc_mask:
  "mask_after (InitLogger_seq ul (calls @ [(path, file, level, se)]) g w) =
     map_option
       (\<lambda>m. if ToLower ul level = ''trace'' \<or> ToLower ul level = ''debug'' then 0xFF
            else if ToLower ul level = ''error'' then 0x01
            else if ToLower ul level = ''warn'' then 0x03
            else if ToLower ul level = ''info'' then 0x07
            else m)
       (mask_after (InitLogger_seq ul calls g w))"
proof -
  obtain g1 w1 where r: "InitLogger_seq ul calls g w = Returns (g1, w1)"
    using InitLogger_seq_returns by blast
  have "mask_after (Returns (g1, w1)) = Some (LOG_LEVEL g1)"
    by (simp add: mask_after_def)
  then show ?thesis
    by (simp add: InitLogger_seq_snoc r InitLogger_mask)
qed

lemma fmt_d_1: "fmt_d 1 = ''1''"
  by (simp add: fmt_d_def digits.simps)

lemma sinks_initial: "sinks_after initial_globals line world0 = world0\<lparr>stderr := [line]\<rparr>"
  by (simp add: sinks_after_def initial_globals_def world0_def)

lemma now_world0: "now world0 = ''2023-01-02T03:04:05Z''"
  by (simp add: world0_def)

lemma warn_init:
  "InitLogger id ''/tmp/x'' ''app.log'' ''warn'' True initial_globals world0 =
     Returns (warn_globals, warn_world)"
  by (simp add: InitLogger_eq Let_def open_log_file_def os_Stat_def os_Mkdir_def os_Create_def
      set_level_def ToLower_examples initial_globals_def world0_def warn_globals_def
      warn_world_def LOG_ERROR_def LOG_WARN_def LOG_INFO_def)

lemma Error_warn:
  "Error warn_globals = \<lparr>parts = [fragment ''level'' ''error''], ignore = False\<rparr>"
  by (simp add: Error_def NewLogger_def Let_def warn_globals_def LOG_ERROR_def fragment_def)

lemma sinks_warn:
  "sinks_after warn_globals line warn_world =
     warn_world\<lparr>stderr := [line], files := [''/tmp/x/app.log'' \<mapsto> line]\<rparr>"
  by (simp add: sinks_after_def warn_globals_def warn_world_def)

lemma now_warn_world: "now warn_world = ''2023-01-02T03:04:05Z''"
  by (simp add: warn_world_def)

lemma NewLogger_initial:
  "NewLogger LOG_ERROR initial_globals = \<lparr>parts = [], ignore = False\<rparr>"
  by (simp add: NewLogger_active initial_globals_def)

lemma silent_init:
  "InitLogger id ''/tmp'' [] ''debug'' False initial_globals world0 =
     Returns (silent_globals, world0)"
  by (simp add: InitLogger_eq Let_def open_log_file_no_file set_level_def ToLower_examples
      initial_globals_def silent_globals_def sinks_after_def)

section \<open>The claims of the specification\<close>

text \<open>
  C1. As stated, the claim fails: whether a line becomes visible also depends on the
  sinks, and with standard error switched off and no file open (the state that
  \<open>InitLogger("/tmp", "", "debug", false)\<close> leaves) neither an \<open>Info\<close> builder whose
  bit is in the mask nor a \<open>Fatal\<close> builder produces any output. What holds: for every
  severity among info, warn, error and debug, every chain of setter calls and every
  message, finalization produces visible output if and only if the mask contains the
  severity's bit pattern (\<open>mask & bit == bit\<close>) and a sink is enabled; a \<open>Fatal\<close> builder
  produces visible output if and only if a sink is enabled, whatever the mask; and the
  filter itself is exactly the containment test: a constructed builder is ignored if and
  only if the mask does not contain the bit pattern, and a \<open>Fatal\<close> builder is never
  ignored (its pattern, zero, would pass the containment test under every mask anyway).
\<close>

theorem C1_output_iff_mask_and_sink:
  "visible_output w (Msg msg (chain ff cs (construct s g)) g w) =
     (LOG_LEVEL g AND severity_bit s = severity_bit s \<and> sink_enabled g w)
   \<and> visible_output w (Msg msg (chain ff cs Fatal) g w) = sink_enabled g w
   \<and> ignore (construct s g) = (LOG_LEVEL g AND severity_bit s \<noteq> severity_bit s)
   \<and> \<not> ignore Fatal
   \<and> LOG_LEVEL g AND LOG_FATAL = LOG_FATAL"
  by (simp add: visible_Msg chain_ignore construct_ignore Fatal_eq Fatal_bit)

text \<open>
  An instance: before any initialization (mask Error only, standard error on) an
  \<open>Error\<close> event and a \<open>Fatal\<close> event are visible and an \<open>Info\<close> event is not.
\<close>

theorem C1_output_iff_mask_and_sink_witness:
  "visible_output world0
     (Msg ''boom'' (chain (\<lambda>f. ''0.000000'') [CallStr ''component'' ''x'']
        (construct SevError initial_globals)) initial_globals world0)
   \<and> \<not> visible_output world0
     (Msg ''hidden'' (chain (\<lambda>f. ''0.000000'') [] (construct SevInfo initial_globals))
        initial_globals world0)
   \<and> visible_output world0
     (Msg ''dying'' (chain (\<lambda>f. ''0.000000'') [CallInt ''code'' 1] Fatal)
        initial_globals world0)"
  using
    C1_output_iff_mask_and_sink [where w = world0 and msg = "''boom''"
      and ff = "\<lambda>f. ''0.000000''" and cs = "[CallStr ''component'' ''x'']"
      and s = SevError and g = initial_globals]
    C1_output_iff_mask_and_sink [where w = world0 and msg = "''hidden''"
      and ff = "\<lambda>f. ''0.000000''" and cs = "[]" and s = SevInfo and g = initial_globals]
    C1_output_iff_mask_and_sink [where w = world0 and msg = "''dying''"
      and ff = "\<lambda>f. ''0.000000''" and cs = "[CallInt ''code'' 1]"
      and s = SevError and g = initial_globals]
  by (simp add: initial_globals_def sink_enabled_def LOG_ERROR_def LOG_INFO_def)

text \<open>
  The run that refutes the claim as stated: after
  \<open>InitLogger("/tmp", "", "debug", false)\<close> the mask contains the Info bit, and neither
  \<open>Info().Msg("x")\<close> nor \<open>Fatal().Msg("x")\<close> produces visible output.
\<close>

theorem C1_counterexample:
  "InitLogger id ''/tmp'' [] ''debug'' False initial_globals world0 =
     Returns (silent_globals, world0)
   \<and> LOG_LEVEL silent_globals AND LOG_INFO = LOG_INFO
   \<and> \<not> visible_output world0 (Msg ''x'' (Info silent_globals) silent_globals world0)
   \<and> \<not> visible_output world0 (Msg ''x'' Fatal silent_globals world0)"
  by (simp add: silent_init visible_Msg sink_enabled_def silent_globals_def
      LOG_TRACE_def LOG_INFO_def)

text \<open>
  C2. Initialization always returns, and the mask it leaves is decided by the lowercased
  level name: \<open>trace\<close> and \<open>debug\<close> give \<open>0xFF\<close>, \<open>error\<close> gives \<open>0x01\<close>, \<open>warn\<close>
  gives \<open>0x03\<close>, \<open>info\<close> gives \<open>0x07\<close>, and any other name leaves the mask as it was
  before the call. The match is case-insensitive: lowercasing an ASCII name maps each of
  its letters \<open>A\<close> to \<open>Z\<close> to the lower-case letter and keeps every other byte.
\<close>

theorem C2_level_mapping:
  "mask_after (InitLogger ul path file level se g w) =
     Some (if ToLower ul level = ''trace'' \<or> ToLower ul level = ''debug'' then 0xFF
           else if ToLower ul level = ''error'' then 0x01
           else if ToLower ul level = ''warn'' then 0x03
           else if ToLower ul level = ''info'' then 0x07
           else LOG_LEVEL g)
   \<and> (isASCII level \<longrightarrow> ToLower ul level = map lower level)"
  by (simp add: InitLogger_mask ToLower_ascii)

theorem C2_level_mapping_witness:
  "isASCII ''WaRn'' \<and> ToLower id ''WaRn'' = ''warn''
   \<and> mask_after (InitLogger id ''/tmp'' [] ''WaRn'' True initial_globals world0) = Some 0x03"
  using C2_level_mapping [of id "''/tmp''" "[]" "''WaRn''" True initial_globals world0]
  by (simp add: isASCII_WaRn ToLower_examples)

text \<open>
  C3. As stated, the claim fails: an unrecognized level name leaves the mask that the
  prior calls left, which need not be Error only; after \<open>debug\<close>, the name \<open>bogus\<close>
  leaves \<open>0xFF\<close>. What holds: for every unrecognized level name, the mask after the
  call equals the mask before the call, also at the end of an arbitrary sequence of
  prior initialization calls. So the mask after the call is the default, Error only
  (\<open>0x01\<close>), exactly when the mask before the call was \<open>0x01\<close>, as it is when the call
  is the first one of the process.
\<close>

theorem C3_unrecognized_keeps_prior_mask:
  assumes "\<not> recognized ul level"
  shows "mask_after (InitLogger_seq ul (calls @ [(path, file, level, se)]) g w) =
           mask_after (InitLogger_seq ul calls g w)
       \<and> mask_after (InitLogger ul path file level se g w) = Some (LOG_LEVEL g)
       \<and> (mask_after (InitLogger ul path file level se g w) = Some 0x01) = (LOG_LEVEL g = 0x01)
       \<and> mask_after (InitLogger ul path file level se initial_globals w) = Some 0x01"
proof -
  obtain g1 w1 where r: "InitLogger_seq ul calls g w = Returns (g1, w1)"
    using InitLogger_seq_returns by blast
  have "mask_after (InitLogger_seq ul (calls @ [(path, file, level, se)]) g w) =
      mask_after (InitLogger ul path file level se g1 w1)"
    by (simp add: InitLogger_seq_snoc r)
  also have "\<dots> = Some (LOG_LEVEL g1)"
    using assms by (rule unrecognized_keeps_mask)
  also have "\<dots> = mask_after (InitLogger_seq ul calls g w)"
    by (simp add: r mask_after_def)
  finally have seq: "mask_after (InitLogger_seq ul (calls @ [(path, file, level, se)]) g w) =
      mask_after (InitLogger_seq ul calls g w)" .
  have one: "mask_after (InitLogger ul path file level se g w) = Some (LOG_LEVEL g)"
    using assms by (rule unrecognized_keeps_mask)
  have "mask_after (InitLogger ul path file level se initial_globals w) =
      Some (LOG_LEVEL initial_globals)"
    using assms by (rule unrecognized_keeps_mask)
  then have first: "mask_after (InitLogger ul path file level se initial_globals w) = Some 0x01"
    by (simp add: initial_globals_def LOG_ERROR_def)
  from seq one first show ?thesis by simp
qed

theorem C3_unrecognized_keeps_prior_mask_witness:
  "\<not> recognized id ''bogus''
   \<and> mask_after (InitLogger_seq id
        ([(''/tmp'', [], ''debug'', True)] @ [(''/tmp'', [], ''bogus'', True)])
        initial_globals world0) =
      mask_after (InitLogger_seq id [(''/tmp'', [], ''debug'', True)] initial_globals world0)
   \<and> mask_after (InitLogger id ''/tmp'' [] ''bogus'' True initial_globals world0) = Some 0x01"
  using C3_unrecognized_keeps_prior_mask [of id "''bogus''"
      "[(''/tmp'', [], ''debug'', True)]" "''/tmp''" "[]" True initial_globals world0]
  by (simp add: not_recognized_bogus initial_globals_def LOG_ERROR_def)

text \<open>
  The run that refutes the claim as stated: \<open>InitLogger("/tmp", "", "debug", true)\<close>
  followed by \<open>InitLogger("/tmp", "", "bogus", true)\<close> leaves the mask \<open>0xFF\<close>.
\<close>

theorem C3_counterexample:
  "\<not> recognized id ''bogus''
   \<and> mask_after (InitLogger_seq id
        [(''/tmp'', [], ''debug'', True), (''/tmp'', [], ''bogus'', True)]
        initial_globals world0) = Some 0xFF
   \<and> (0xFF :: go_int) \<noteq> 0x01"
  using
    InitLogger_seq_snoc_mask [of id "[(''/tmp'', [], ''debug'', True)]"
      "''/tmp''" "[]" "''bogus''" True initial_globals world0]
    InitLogger_seq_snoc_mask [of id "[]" "''/tmp''" "[]" "''debug''" True initial_globals world0]
  by (simp add: not_recognized_bogus ToLower_examples mask_after_def)

text \<open>
  C4. As stated, the claim fails in two places. The message and the field values are
  interpolated raw, so the chunk is one line only when they hold no newline:
  \<open>Fatal().Msg("a\nb")\<close> writes a chunk with two newlines. And the level field comes
  from the five constructors, not from \<open>Msg\<close>: the exported \<open>NewLogger\<close> returns a
  builder that is not ignored and has no fragment, whose line has no level field. What
  holds: for every builder that is not ignored and every message, \<open>Msg\<close> returns after
  rendering one chunk: an opening brace, the \<open>time\<close> field holding the clock's text at
  the time of the call, the builder's fragments in order, each followed by a comma, the
  \<open>message\<close> field holding the raw message, last, a closing brace and a newline. The
  chunk ends with a newline and holds one newline more than the clock's text, the
  fragments and the message hold together, so it is exactly one line if and only if
  none of them holds a newline. The chunk is written as one piece to standard error when
  the flag is set, and appended to the log file when a handle is there and open. The
  fragments of a builder obtained from one of the five constructors and a chain of
  setter calls are the level field first, then what the calls rendered, in call order;
  the fragments of a builder obtained from \<open>NewLogger\<close> start empty.
\<close>

theorem C4_Msg_renders_one_chunk:
  assumes "\<not> ignore x"
  shows "Msg msg x g w = Returns (sinks_after g (json_line (now w) (parts x) msg) w)
       \<and> parts (chain ff cs x) = parts x @ concat (map (rendered ff) cs)
       \<and> (LOG_LEVEL g AND severity_bit s = severity_bit s \<longrightarrow>
            parts (chain ff cs (construct s g)) =
              fragment ''level'' (level_name s) # concat (map (rendered ff) cs))
       \<and> parts (chain ff cs Fatal) = fragment ''level'' ''fatal'' # concat (map (rendered ff) cs)
       \<and> (LOG_LEVEL g AND level = level \<longrightarrow>
            NewLogger level g = \<lparr>parts = [], ignore = False\<rparr>)
       \<and> last (json_line (now w) (parts x) msg) = CHR 0x0A
       \<and> newlines (json_line (now w) (parts x) msg) =
            1 + newlines (now w) + sum_list (map newlines (parts x)) + newlines msg
       \<and> (newlines (json_line (now w) (parts x) msg) = 1) =
            (newlines (now w) = 0 \<and> sum_list (map newlines (parts x)) = 0 \<and> newlines msg = 0)"
proof -
  have a: "Msg msg x g w = Returns (sinks_after g (json_line (now w) (parts x) msg) w)"
    using assms by (rule Msg_active)
  have b: "parts (chain ff cs x) = parts x @ concat (map (rendered ff) cs)"
    using assms by (simp add: chain_active)
  have c: "parts (chain ff cs (construct s g)) =
      fragment ''level'' (level_name s) # concat (map (rendered ff) cs)"
    if "LOG_LEVEL g AND severity_bit s = severity_bit s"
    using that by (simp add: construct_active chain_active)
  have d: "parts (chain ff cs Fatal) = fragment ''level'' ''fatal'' # concat (map (rendered ff) cs)"
    by (simp add: Fatal_eq chain_active)
  have e: "NewLogger level g = \<lparr>parts = [], ignore = False\<rparr>"
    if "LOG_LEVEL g AND level = level"
    using that by (rule NewLogger_active)
  have f: "last (json_line (now w) (parts x) msg) = CHR 0x0A"
    by (rule last_json_line)
  have n: "newlines (json_line (now w) (parts x) msg) =
      1 + newlines (now w) + sum_list (map newlines (parts x)) + newlines msg"
    by (rule newlines_json_line)
  then have o: "(newlines (json_line (now w) (parts x) msg) = 1) =
      (newlines (now w) = 0 \<and> sum_list (map newlines (parts x)) = 0 \<and> newlines msg = 0)"
    by auto
  from a b c d e f n o show ?thesis by simp
qed

text \<open>
  An instance: \<open>InitLogger("/tmp/x", "app.log", "warn", true)\<close> creates the directory
  and the file and announces nothing; then \<open>Error().Str("component","x").Msg("boom")\<close>
  puts one line on standard error and the same line in the file.
\<close>

theorem C4_Msg_renders_one_chunk_witness:
  \<open>InitLogger id ''/tmp/x'' ''app.log'' ''warn'' True initial_globals world0 =
     Returns (warn_globals, warn_world)
   \<and> \<not> ignore (chain (\<lambda>f. ''0.000000'') [CallStr ''component'' ''x'']
      (construct SevError warn_globals))
   \<and> Msg ''boom'' (chain (\<lambda>f. ''0.000000'') [CallStr ''component'' ''x'']
      (construct SevError warn_globals)) warn_globals warn_world =
     Returns (warn_world\<lparr>
       stderr :=
         [''{"time":"2023-01-02T03:04:05Z","level":"error","component":"x","message":"boom"}''
            @ [CHR 0x0A]],
       files :=
         [''/tmp/x/app.log'' \<mapsto>
            ''{"time":"2023-01-02T03:04:05Z","level":"error","component":"x","message":"boom"}''
              @ [CHR 0x0A]]\<rparr>)
   \<and> newlines
        (''{"time":"2023-01-02T03:04:05Z","level":"error","component":"x","message":"boom"}''
           @ [CHR 0x0A]) = 1\<close>
  using C4_Msg_renders_one_chunk [where
      x = "chain (\<lambda>f. ''0.000000'') [CallStr ''component'' ''x'']
             (construct SevError warn_globals)"
      and msg = "''boom''" and g = warn_globals and w = warn_world
      and ff = "\<lambda>f. ''0.000000''" and cs = "[]" and s = SevError and level = LOG_ERROR]
  by (simp add: warn_init Error_warn chain_active sinks_warn now_warn_world json_line_def
      fragment_def newlines_def)

text \<open>
  The runs that refute the claim as stated, before any initialization:
  \<open>Fatal().Msg("a\nb")\<close> writes a chunk of two lines, and
  \<open>NewLogger(LOG_ERROR).Msg("x")\<close> writes a line with no level field.
\<close>

theorem C4_counterexample:
  \<open>\<not> ignore Fatal
   \<and> Msg (''a'' @ [CHR 0x0A] @ ''b'') Fatal initial_globals world0 =
       Returns (world0\<lparr>stderr :=
         [''{"time":"2023-01-02T03:04:05Z","level":"fatal","message":"a'' @ [CHR 0x0A]
            @ ''b"}'' @ [CHR 0x0A]]\<rparr>)
   \<and> newlines
        (''{"time":"2023-01-02T03:04:05Z","level":"fatal","message":"a'' @ [CHR 0x0A]
           @ ''b"}'' @ [CHR 0x0A]) = 2
   \<and> \<not> ignore (NewLogger LOG_ERROR initial_globals)
   \<and> Msg ''x'' (NewLogger LOG_ERROR initial_globals) initial_globals world0 =
       Returns (world0\<lparr>stderr :=
         [''{"time":"2023-01-02T03:04:05Z","message":"x"}'' @ [CHR 0x0A]]\<rparr>)\<close>
  by (simp add: Msg_active Fatal_eq NewLogger_initial sinks_initial now_world0 json_line_def
      fragment_def newlines_def)

text \<open>
  C5. For every builder that is not ignored, every key and every value, the integer, the
  64-bit integer, the float and the boolean setter return the builder with one more
  fragment at the end and nothing else changed; the fragment is the key between double
  quotes, a colon, and the rendered value between double quotes. The rendered integer is
  its decimal numeral and the rendered boolean is \<open>true\<close> or \<open>false\<close>; neither
  contains a double quote, so the value is a JSON string and never a bare literal.
\<close>

theorem C5_setters_quote_values:
  assumes "\<not> ignore x"
  shows "Int' k i x = x\<lparr>parts := parts x @ [fragment k (fmt_d (sint i))]\<rparr>
       \<and> Int64 k j x = x\<lparr>parts := parts x @ [fragment k (fmt_d (sint j))]\<rparr>
       \<and> Float ff k f x = x\<lparr>parts := parts x @ [fragment k (ff f)]\<rparr>
       \<and> Bool k b x = x\<lparr>parts := parts x @ [fragment k (fmt_t b)]\<rparr>
       \<and> fragment k v = [CHR 0x22] @ k @ [CHR 0x22, CHR 0x3A, CHR 0x22] @ v @ [CHR 0x22]
       \<and> decimal_int (fmt_d (sint i)) = sint i
       \<and> CHR 0x22 \<notin> set (fmt_d (sint i))
       \<and> CHR 0x22 \<notin> set (fmt_t b)"
  using assms
  by (simp add: setter_defs fragment_def decimal_int_fmt_d fmt_d_no_quote fmt_t_no_quote)

text \<open>An instance: \<open>Fatal().Int("code", 1)\<close> and \<open>Fatal().Bool("code", true)\<close>.\<close>

theorem C5_setters_quote_values_witness:
  \<open>\<not> ignore Fatal
   \<and> Int' ''code'' 1 Fatal = \<lparr>parts = [''"level":"fatal"'', ''"code":"1"''], ignore = False\<rparr>
   \<and> Int64 ''code'' 1 Fatal = \<lparr>parts = [''"level":"fatal"'', ''"code":"1"''], ignore = False\<rparr>
   \<and> Bool ''code'' True Fatal =
       \<lparr>parts = [''"level":"fatal"'', ''"code":"true"''], ignore = False\<rparr>\<close>
  using C5_setters_quote_values [where x = Fatal and k = "''code''" and i = 1 and j = 1
      and b = True]
  by (simp add: Fatal_eq fragment_def fmt_d_1 fmt_t_def setter_defs)

text \<open>
  C6. The error setter given the nil error appends nothing: the builder it returns is the
  builder it received, with the same fragments and the same flag, whatever the state of
  the builder, so that no \<open>error\<close> key reaches the line from this call; the call cannot
  fail, the setter being a total function.
\<close>

theorem C6_Err_nil:
  "Err None x = x \<and> parts (Err None x) = parts x \<and> ignore (Err None x) = ignore x
   \<and> rendered ff (CallErr None) = []
   \<and> Msg msg (Err None x) g w = Msg msg x g w"
  by (simp add: Err_def)

text \<open>An instance: \<open>Fatal().Err(nil)\<close> is \<open>Fatal()\<close>.\<close>

theorem C6_Err_nil_witness:
  "Err None Fatal = Fatal \<and> parts (Err None Fatal) = [fragment ''level'' ''fatal'']"
  using C6_Err_nil [of Fatal]
  by (simp add: Fatal_eq)

text \<open>
  C7. For every ignored builder, each of the six setters returns the builder unchanged,
  whatever its arguments, and so does every chain of setter calls; \<open>Msg\<close> returns and
  leaves the whole machine as it was: nothing on standard error, nothing in any file.
\<close>

theorem C7_ignored_builder_noop:
  assumes "ignore x"
  shows "Str k v x = x \<and> Int' k i x = x \<and> Int64 k j x = x \<and> Float ff k f x = x
       \<and> Bool k b x = x \<and> Err e x = x \<and> chain ff cs x = x
       \<and> Msg msg x g w = Returns w \<and> \<not> visible_output w (Msg msg x g w)"
  using assms
  by (simp add: setter_defs chain_ignored Msg_ignored visible_output_def split: option.splits)

text \<open>
  An instance: before any initialization the mask is Error only, \<open>Info()\<close> is ignored,
  and \<open>Info().Str("k","v").Msg("hidden")\<close> changes nothing.
\<close>

theorem C7_ignored_builder_noop_witness:
  "ignore (Info initial_globals)
   \<and> Str ''k'' ''v'' (Info initial_globals) = Info initial_globals
   \<and> Msg ''hidden'' (Str ''k'' ''v'' (Info initial_globals)) initial_globals world0 =
       Returns world0"
  using C7_ignored_builder_noop [of "Info initial_globals" "''k''" "''v''" 0 0
      "\<lambda>f. ''0.000000''" 0 False None "[]" "''hidden''" initial_globals world0]
  by (simp add: Info_eq initial_globals_def LOG_ERROR_def LOG_INFO_def)

text \<open>
  C8. As stated, the claim fails: \<open>Shutdown\<close> calls \<open>Close\<close> on the handle, and the
  \<open>Close\<close> method of \<open>os.File\<close> tests its receiver and returns \<open>os.ErrInvalid\<close> when
  it is nil, an error that \<open>Shutdown\<close> discards. What holds: \<open>Shutdown\<close> always
  returns; with no handle it leaves the machine as it was, with a handle that is open it
  closes it, and with a handle that is already closed it leaves the machine as it was.
\<close>

theorem C8_Shutdown_always_returns:
  "Shutdown g w =
     Returns
       (case LOG_FH g of
          None \<Rightarrow> w
        | Some h \<Rightarrow>
            (case open_files w h of
               None \<Rightarrow> w
             | Some p \<Rightarrow> w\<lparr>open_files := (open_files w)(h := None)\<rparr>))
   \<and> (LOG_FH g = None \<longrightarrow> Shutdown g w = Returns w)
   \<and> Shutdown g w \<noteq> Panics \<and> Shutdown g w \<noteq> Exits"
  by (simp add: Shutdown_eq)

theorem C8_Shutdown_always_returns_witness:
  "LOG_FH initial_globals = None \<and> Shutdown initial_globals world0 = Returns world0"
  using C8_Shutdown_always_returns [of initial_globals world0]
  by (simp add: initial_globals_def)

text \<open>
  The run that refutes the claim as stated: in a process that never opened a log file,
  \<open>Shutdown()\<close> returns and changes nothing.
\<close>

theorem C8_counterexample:
  "LOG_FH initial_globals = None
   \<and> Shutdown initial_globals world0 = Returns world0
   \<and> Shutdown initial_globals world0 \<noteq> Panics"
  by (simp add: Shutdown_eq initial_globals_def)

text \<open>
  C9. Initialization always returns, and after the level and the file are settled it
  makes exactly one \<open>Msg\<close> call: when the resolved mask contains the Info bit, the line
  with the fragments level \<open>info\<close>, component \<open>osintami\<close>, the requested level name as
  given, and the resolved file path, and the message \<open>logging started\<close>, goes to the
  sinks as for any other event; when the resolved mask lacks the Info bit the machine
  is left as the opening of the file left it. In particular the names \<open>error\<close> and
  \<open>warn\<close> announce nothing.
\<close>

theorem C9_startup_event:
  "InitLogger ul path file level se g w =
     (let g0 = set_level ul level (g\<lparr>LOG_FILE := path @ ''/'' @ file, LOG_STDERR := se\<rparr>);
          g1 = fst (open_log_file path file g0 w);
          w1 = snd (open_log_file path file g0 w)
      in Returns
           (g1,
            if LOG_LEVEL g1 AND LOG_INFO = LOG_INFO
            then sinks_after g1
                   (json_line (now w1)
                      [fragment ''level'' ''info'', fragment ''component'' ''osintami'',
                       fragment ''level'' level, fragment ''file'' (path @ ''/'' @ file)]
                      ''logging started'') w1
            else w1))
   \<and> (ToLower ul level = ''error'' \<or> ToLower ul level = ''warn'' \<longrightarrow>
        InitLogger ul path file level se g w =
          Returns
            (open_log_file path file
               (set_level ul level (g\<lparr>LOG_FILE := path @ ''/'' @ file, LOG_STDERR := se\<rparr>)) w))"
proof -
  have "LOG_LEVEL (set_level ul level g') AND LOG_INFO \<noteq> LOG_INFO"
    if "ToLower ul level = ''error'' \<or> ToLower ul level = ''warn''" for g'
    using that by (auto simp: set_level_mask LOG_INFO_def)
  then show ?thesis
    by (simp add: InitLogger_eq Let_def open_log_file_frame)
qed

text \<open>
  Two instances on a machine with no log file: the name \<open>error\<close> writes nothing, the
  name \<open>INFO\<close> writes the announcement to standard error.
\<close>

theorem C9_startup_event_witness:
  \<open>ToLower id ''error'' = ''error''
   \<and> InitLogger id ''/tmp'' [] ''error'' True initial_globals world0 =
     Returns (initial_globals\<lparr>LOG_FILE := ''/tmp/''\<rparr>, world0)
   \<and> InitLogger id ''/tmp'' [] ''INFO'' True initial_globals world0 =
     Returns
       (initial_globals\<lparr>LOG_FILE := ''/tmp/'', LOG_LEVEL := 0x07\<rparr>,
        world0\<lparr>stderr :=
          [''{"time":"2023-01-02T03:04:05Z","level":"info","component":"osintami",''
             @ ''"level":"INFO","file":"/tmp/","message":"logging started"}''
             @ [CHR 0x0A]]\<rparr>)\<close>
  using
    C9_startup_event [of id "''/tmp''" "[]" "''error''" True initial_globals world0]
    C9_startup_event [of id "''/tmp''" "[]" "''INFO''" True initial_globals world0]
  by (simp add: Let_def open_log_file_no_file set_level_def ToLower_examples
      initial_globals_def LOG_ERROR_def LOG_WARN_def LOG_INFO_def sinks_after_def
      json_line_def fragment_def world0_def)

text \<open>
  C10. For every mask, every chain of setter calls and every message, finalizing a
  \<open>Fatal\<close> builder returns normally, having written the line with the level field
  \<open>fatal\<close> to the sinks exactly as an active builder of any other severity does; it
  neither panics nor exits.
\<close>

theorem C10_Fatal_Msg_returns:
  "Msg msg (chain ff cs Fatal) g w =
     Returns
       (sinks_after g
          (json_line (now w) (fragment ''level'' ''fatal'' # concat (map (rendered ff) cs)) msg)
          w)
   \<and> Msg msg (chain ff cs Fatal) g w \<noteq> Panics
   \<and> Msg msg (chain ff cs Fatal) g w \<noteq> Exits"
  by (simp add: Msg_returns Fatal_eq chain_active)

text \<open>
  An instance: with the mask Error only, \<open>Fatal().Int("code",1).Msg("dying")\<close> returns
  and the line is on standard error.
\<close>

theorem C10_Fatal_Msg_returns_witness:
  \<open>Msg ''dying'' (chain (\<lambda>f. ''0.000000'') [CallInt ''code'' 1] Fatal) initial_globals world0 =
     Returns (world0\<lparr>stderr :=
       [''{"time":"2023-01-02T03:04:05Z","level":"fatal","code":"1","message":"dying"}''
          @ [CHR 0x0A]]\<rparr>)\<close>
  using C10_Fatal_Msg_returns [of "''dying''" "\<lambda>f. ''0.000000''" "[CallInt ''code'' 1]"
      initial_globals world0]
  by (simp add: sinks_initial now_world0 json_line_def fragment_def fmt_d_1)

end
